theory Spec2Isabelle
  imports Main "HOL-Library.Sublist"
begin

section \<open>The Qt objects that main.py touches\<close>

text \<open>
  The program is \<^verbatim>\<open>src/main.py\<close>: a \<^verbatim>\<open>MainWindow\<close> class whose constructor sets a
  title and a geometry, a \<^verbatim>\<open>main\<close> function of four statements, and the
  \<^verbatim>\<open>__name__\<close> guard. Everything else is PyQt5. The widget is a record of the three
  properties the program writes or the claims read; \<open>geometry\<close> is Qt's
  \<^verbatim>\<open>(x, y, width, height)\<close>.
\<close>

record QMainWindow =
  windowTitle :: string
  geometry :: "int \<times> int \<times> int \<times> int"
  visible :: bool

definition window_pos :: "QMainWindow \<Rightarrow> int \<times> int" where
  "window_pos w = (case geometry w of (x, y, width, height) \<Rightarrow> (x, y))"

definition window_size :: "QMainWindow \<Rightarrow> int \<times> int" where
  "window_size w = (case geometry w of (x, y, width, height) \<Rightarrow> (width, height))"

text \<open>
  Qt library calls, not repository code: each is modelled by its documented effect on
  the widget, a write of one property that leaves the others alone.
\<close>

definition setWindowTitle :: "string \<Rightarrow> QMainWindow \<Rightarrow> QMainWindow" where
  "setWindowTitle t w = w\<lparr>windowTitle := t\<rparr>"

definition setGeometry :: "int \<Rightarrow> int \<Rightarrow> int \<Rightarrow> int \<Rightarrow> QMainWindow \<Rightarrow> QMainWindow" where
  "setGeometry x y width height w = w\<lparr>geometry := (x, y, width, height)\<rparr>"

text \<open>
  \<^verbatim>\<open>MainWindow.__init__\<close> (lines 5 to 8). The argument \<open>self\<close> is the widget as
  \<^verbatim>\<open>super().__init__()\<close> left it, whatever Qt's defaults are.
\<close>

definition MainWindow_init :: "QMainWindow \<Rightarrow> QMainWindow" where
  "MainWindow_init self =
     setGeometry 100 100 600 400
       (setWindowTitle ''OpenShot X - Screen Capture Tool'' self)"

section \<open>The GUI runtime as the environment of a run\<close>

text \<open>
  What Qt does in a run is not decided by the program, so it is a parameter:
  whether \<^verbatim>\<open>QApplication(argv)\<close> can attach to a display, what
  \<^verbatim>\<open>QMainWindow.__init__\<close> yields, and what \<^verbatim>\<open>app.exec_()\<close> returns. The event loop
  blocks until a quit condition, so \<open>None\<close> stands for a loop that never returns.
\<close>

datatype error = RuntimeUnavailable | ResourceExhaustion

record runtime =
  attach :: "string list \<Rightarrow> error option"
  new_widget :: "error + QMainWindow"
  event_loop :: "int option"

text \<open>
  The effects a process can have on the outside. The program's own statements only
  ever produce the first two kinds; the others are there so that their absence can be
  stated.
\<close>

datatype gui_call =
    QApplication_new "string list"
  | MainWindow_new
  | Show nat
  | Exec

datatype effect =
    Gui gui_call
  | SysExit int
  | FileRead string
  | FileWrite string
  | PortOpen nat
  | EnvRead string
  | EnvWrite string

text \<open>
  The process: the application object (holding the argument vector it was given), the
  store of window objects (a window reference is its index), and the effects so far, in
  order. A call is recorded when it is made, before its result is known.
\<close>

record process =
  app :: "string list option"
  windows :: "QMainWindow list"
  trace :: "effect list"

definition initial :: process where
  "initial = \<lparr>app = None, windows = [], trace = []\<rparr>"

definition emit :: "effect \<Rightarrow> process \<Rightarrow> process" where
  "emit e p = p\<lparr>trace := trace p @ [e]\<rparr>"

datatype outcome = Exited int | Uncaught error | Blocked

text \<open>
  The exit status of the process, as its parent reads it on a POSIX system.
  \<^verbatim>\<open>sys.exit(n)\<close> ends the process through \<^verbatim>\<open>exit(n)\<close>, which keeps the low eight bits
  of \<open>n\<close>: the status is \<open>n mod 256\<close>, so 256 reads as 0 and -1 as 255. A failure
  that nothing in the program handles (\<open>Uncaught\<close>) ends the process too: when Qt cannot
  attach to a display it aborts, and a process killed by \<^verbatim>\<open>SIGABRT\<close> is reported as
  128 + 6 = 134; a failed allocation reaches the top level as an unhandled exception,
  for which the interpreter's status is 1. A process blocked in the event loop has no
  status.
\<close>

fun exit_status :: "outcome \<Rightarrow> int option" where
  "exit_status (Exited n) = Some (n mod 256)"
| "exit_status (Uncaught RuntimeUnavailable) = Some 134"
| "exit_status (Uncaught ResourceExhaustion) = Some 1"
| "exit_status Blocked = None"

section \<open>The statements of main\<close>

text \<open>Line 11, \<^verbatim>\<open>app = QApplication(sys.argv)\<close>.\<close>

definition QApplication :: "runtime \<Rightarrow> string list \<Rightarrow> process \<Rightarrow> (error + unit) \<times> process" where
  "QApplication rt argv p =
     (let p1 = emit (Gui (QApplication_new argv)) p in
      case attach rt argv of
        Some e \<Rightarrow> (Inl e, p1)
      | None \<Rightarrow> (Inr (), p1\<lparr>app := Some argv\<rparr>))"

text \<open>Line 12, \<^verbatim>\<open>window = MainWindow()\<close>: allocate, run the constructor, return the reference.\<close>

definition MainWindow :: "runtime \<Rightarrow> process \<Rightarrow> (error + nat) \<times> process" where
  "MainWindow rt p =
     (let p1 = emit (Gui MainWindow_new) p in
      case new_widget rt of
        Inl e \<Rightarrow> (Inl e, p1)
      | Inr self \<Rightarrow>
          (Inr (length (windows p1)), p1\<lparr>windows := windows p1 @ [MainWindow_init self]\<rparr>))"

text \<open>
  Modelled from the spec: \<^verbatim>\<open>QWidget.show\<close> is inherited from Qt and its code is not in
  the repository. The spec's contract is "makes the window visible; idempotent if called
  twice", with no error path: the window's visibility becomes true and nothing else
  changes. A reference to no window changes no window.
\<close>

definition QWidget_show :: "nat \<Rightarrow> process \<Rightarrow> process" where
  "QWidget_show i p =
     (let p1 = emit (Gui (Show i)) p in
      if i < length (windows p1)
      then p1\<lparr>windows := (windows p1)[i := (windows p1 ! i)\<lparr>visible := True\<rparr>]\<rparr>
      else p1)"

text \<open>Line 14, the inner call \<^verbatim>\<open>app.exec_()\<close>.\<close>

definition QApplication_exec :: "runtime \<Rightarrow> process \<Rightarrow> int option \<times> process" where
  "QApplication_exec rt p = (event_loop rt, emit (Gui Exec) p)"

text \<open>Line 14, the outer call \<^verbatim>\<open>sys.exit(n)\<close>.\<close>

definition sys_exit :: "int \<Rightarrow> process \<Rightarrow> outcome \<times> process" where
  "sys_exit n p = (Exited n, emit (SysExit n) p)"

text \<open>
  Lines 11 to 13 of \<^verbatim>\<open>main\<close>, from a fresh process. There is no \<^verbatim>\<open>try\<close> in the
  source: an exception leaves at once, with the state as it is.
\<close>

definition startup :: "runtime \<Rightarrow> string list \<Rightarrow> (error + nat) \<times> process" where
  "startup rt argv =
     (case QApplication rt argv initial of
        (Inl e, p1) \<Rightarrow> (Inl e, p1)
      | (Inr u, p1) \<Rightarrow>
          (case MainWindow rt p1 of
             (Inl e, p2) \<Rightarrow> (Inl e, p2)
           | (Inr window, p2) \<Rightarrow> (Inr window, QWidget_show window p2)))"

text \<open>\<^verbatim>\<open>main\<close>: lines 11 to 13, then line 14.\<close>

definition main :: "runtime \<Rightarrow> string list \<Rightarrow> outcome \<times> process" where
  "main rt argv =
     (case startup rt argv of
        (Inl e, p) \<Rightarrow> (Uncaught e, p)
      | (Inr window, p) \<Rightarrow>
          (case QApplication_exec rt p of
             (None, p') \<Rightarrow> (Blocked, p')
           | (Some n, p') \<Rightarrow> sys_exit n p'))"

section \<open>The module\<close>

text \<open>
  Running the file top to bottom: two imports, the class statement, the function
  definition, and the guard of lines 16 and 17, which calls \<^verbatim>\<open>main\<close> only when
  \<^verbatim>\<open>__name__\<close> is \<^verbatim>\<open>'__main__'\<close>. The result is the names the module binds, the outcome
  of \<^verbatim>\<open>main\<close> if it ran, and the process.
\<close>

datatype binding = Import string | Class string | Def string

fun is_import :: "binding \<Rightarrow> bool" where
  "is_import (Import n) = True"
| "is_import (Class n) = False"
| "is_import (Def n) = False"

definition module_bindings :: "binding list" where
  "module_bindings =
     [Import ''sys'', Import ''QApplication'', Import ''QMainWindow'',
      Class ''MainWindow'', Def ''main'']"

definition run_module ::
  "string \<Rightarrow> runtime \<Rightarrow> string list \<Rightarrow> binding list \<times> outcome option \<times> process" where
  "run_module name rt argv =
     (module_bindings,
      if name = ''__main__''
      then (case main rt argv of (out, p) \<Rightarrow> (Some out, p))
      else (None, initial))"

section \<open>Reading a trace\<close>

text \<open>The five steps of a complete run, in the order of the four lines of \<^verbatim>\<open>main\<close>.\<close>

definition five_steps :: "string list \<Rightarrow> int \<Rightarrow> effect list" where
  "five_steps argv n =
     [Gui (QApplication_new argv), Gui MainWindow_new, Gui (Show 0), Gui Exec, SysExit n]"

text \<open>The argument vectors handed to the runtime initializer, in order.\<close>

fun qapplication_args :: "effect list \<Rightarrow> string list list" where
  "qapplication_args [] = []"
| "qapplication_args (Gui (QApplication_new a) # es) = a # qapplication_args es"
| "qapplication_args (e # es) = qapplication_args es"

text \<open>How many windows a trace constructs.\<close>

fun constructions :: "effect list \<Rightarrow> nat" where
  "constructions [] = 0"
| "constructions (Gui MainWindow_new # es) = Suc (constructions es)"
| "constructions (e # es) = constructions es"

text \<open>An effect that goes through the GUI runtime or is the process exit.\<close>

fun gui_or_exit :: "effect \<Rightarrow> bool" where
  "gui_or_exit (Gui c) = True"
| "gui_or_exit (SysExit n) = True"
| "gui_or_exit (FileRead f) = False"
| "gui_or_exit (FileWrite f) = False"
| "gui_or_exit (PortOpen k) = False"
| "gui_or_exit (EnvRead v) = False"
| "gui_or_exit (EnvWrite v) = False"





section \<open>Runtimes to run the program on\<close>

text \<open>A widget as Qt makes it: no title, the default geometry, hidden.\<close>

definition fresh_widget :: QMainWindow where
  "fresh_widget = \<lparr>windowTitle = [], geometry = (0, 0, 640, 480), visible = False\<rparr>"

text \<open>A display session in which the user closes the window: the loop returns 0.\<close>

definition desktop :: runtime where
  "desktop = \<lparr>attach = (\<lambda>a. None), new_widget = Inr fresh_widget, event_loop = Some 0\<rparr>"

text \<open>The same, with the toolkit leaving the loop abnormally.\<close>

definition crashing :: runtime where
  "crashing = \<lparr>attach = (\<lambda>a. None), new_widget = Inr fresh_widget, event_loop = Some 3\<rparr>"

text \<open>The same, with a loop that returns 256, one more than a status can hold.\<close>

definition wrapping :: runtime where
  "wrapping = \<lparr>attach = (\<lambda>a. None), new_widget = Inr fresh_widget, event_loop = Some 256\<rparr>"

text \<open>No display to attach to.\<close>

definition headless :: runtime where
  "headless =
     \<lparr>attach = (\<lambda>a. Some RuntimeUnavailable), new_widget = Inr fresh_widget,
      event_loop = Some 0\<rparr>"

section \<open>What a run of main is, case by case\<close>

text \<open>The window that \<^verbatim>\<open>main\<close> has on screen, built from the widget Qt allocated.\<close>

definition shown_window :: "QMainWindow \<Rightarrow> QMainWindow" where
  "shown_window self = (MainWindow_init self)\<lparr>visible := True\<rparr>"

lemma startup_unavailable:
  assumes "attach rt argv = Some e"
  shows "startup rt argv =
           (Inl e, \<lparr>app = None, windows = [], trace = [Gui (QApplication_new argv)]\<rparr>)"
  using assms by (simp add: startup_def QApplication_def emit_def initial_def)

lemma startup_exhausted:
  assumes "attach rt argv = None" and "new_widget rt = Inl e"
  shows "startup rt argv =
           (Inl e, \<lparr>app = Some argv, windows = [],
                    trace = [Gui (QApplication_new argv), Gui MainWindow_new]\<rparr>)"
  using assms
  by (simp add: startup_def QApplication_def MainWindow_def emit_def initial_def)

lemma startup_done:
  assumes "attach rt argv = None" and "new_widget rt = Inr self"
  shows "startup rt argv =
           (Inr 0, \<lparr>app = Some argv, windows = [shown_window self],
                    trace = [Gui (QApplication_new argv), Gui MainWindow_new, Gui (Show 0)]\<rparr>)"
  using assms
  by (simp add: startup_def QApplication_def MainWindow_def QWidget_show_def emit_def
      initial_def shown_window_def)

lemma main_unavailable:
  assumes "attach rt argv = Some e"
  shows "main rt argv =
           (Uncaught e, \<lparr>app = None, windows = [], trace = [Gui (QApplication_new argv)]\<rparr>)"
  by (simp add: main_def startup_unavailable [OF assms])

lemma main_exhausted:
  assumes "attach rt argv = None" and "new_widget rt = Inl e"
  shows "main rt argv =
           (Uncaught e, \<lparr>app = Some argv, windows = [],
                         trace = [Gui (QApplication_new argv), Gui MainWindow_new]\<rparr>)"
  by (simp add: main_def startup_exhausted [OF assms])

lemma main_blocked:
  assumes "attach rt argv = None" and "new_widget rt = Inr self" and "event_loop rt = None"
  shows "main rt argv =
           (Blocked, \<lparr>app = Some argv, windows = [shown_window self],
                      trace = [Gui (QApplication_new argv), Gui MainWindow_new,
                               Gui (Show 0), Gui Exec]\<rparr>)"
  using assms(3)
  by (simp add: main_def startup_done [OF assms(1,2)] QApplication_exec_def emit_def)

lemma main_exited:
  assumes "attach rt argv = None" and "new_widget rt = Inr self" and "event_loop rt = Some n"
  shows "main rt argv =
           (Exited n, \<lparr>app = Some argv, windows = [shown_window self],
                        trace = five_steps argv n\<rparr>)"
  using assms(3)
  by (simp add: main_def startup_done [OF assms(1,2)] QApplication_exec_def sys_exit_def
      emit_def five_steps_def)

text \<open>Every run is one of the four.\<close>

lemma main_cases:
  obtains (unavailable) e where "attach rt argv = Some e"
  | (exhausted) e where "attach rt argv = None" and "new_widget rt = Inl e"
  | (blocked) self where "attach rt argv = None" and "new_widget rt = Inr self"
      and "event_loop rt = None"
  | (exited) self n where "attach rt argv = None" and "new_widget rt = Inr self"
      and "event_loop rt = Some n"
proof (cases "attach rt argv")
  case (Some e)
  then show ?thesis by (rule unavailable)
next
  case None
  show ?thesis
  proof (cases "new_widget rt")
    case (Inl e)
    with None show ?thesis by (rule exhausted)
  next
    case (Inr self)
    show ?thesis
    proof (cases "event_loop rt")
      case None': None
      from None Inr None' show ?thesis by (rule blocked)
    next
      case (Some n)
      from None Inr Some show ?thesis by (rule exited)
    qed
  qed
qed

text \<open>The three runtimes, run.\<close>

lemma main_desktop:
  "main desktop argv =
     (Exited 0, \<lparr>app = Some argv, windows = [shown_window fresh_widget],
                  trace = five_steps argv 0\<rparr>)"
  by (rule main_exited) (simp_all add: desktop_def)

lemma main_crashing:
  "main crashing argv =
     (Exited 3, \<lparr>app = Some argv, windows = [shown_window fresh_widget],
                  trace = five_steps argv 3\<rparr>)"
  by (rule main_exited) (simp_all add: crashing_def)

lemma main_wrapping:
  "main wrapping argv =
     (Exited 256, \<lparr>app = Some argv, windows = [shown_window fresh_widget],
                    trace = five_steps argv 256\<rparr>)"
  by (rule main_exited) (simp_all add: wrapping_def)

lemma main_headless:
  "main headless argv =
     (Uncaught RuntimeUnavailable,
      \<lparr>app = None, windows = [], trace = [Gui (QApplication_new argv)]\<rparr>)"
  by (rule main_unavailable) (simp add: headless_def)

lemma startup_desktop:
  "startup desktop argv =
     (Inr 0, \<lparr>app = Some argv, windows = [shown_window fresh_widget],
               trace = [Gui (QApplication_new argv), Gui MainWindow_new, Gui (Show 0)]\<rparr>)"
  by (rule startup_done) (simp_all add: desktop_def)

text \<open>The constructor's three writes, read back.\<close>

lemma MainWindow_init_title:
  "windowTitle (MainWindow_init self) = ''OpenShot X - Screen Capture Tool''"
  by (simp add: MainWindow_init_def setGeometry_def setWindowTitle_def)

lemma MainWindow_init_pos: "window_pos (MainWindow_init self) = (100, 100)"
  by (simp add: MainWindow_init_def setGeometry_def setWindowTitle_def window_pos_def)

lemma MainWindow_init_size: "window_size (MainWindow_init self) = (600, 400)"
  by (simp add: MainWindow_init_def setGeometry_def setWindowTitle_def window_size_def)

lemma shown_window_title:
  "windowTitle (shown_window self) = ''OpenShot X - Screen Capture Tool''"
  by (simp add: shown_window_def MainWindow_init_title)

text \<open>What the call of line 12 returns, when it returns: a reference to a constructed window.\<close>

lemma MainWindow_returns:
  assumes "MainWindow rt p = (Inr w, p')"
  shows "\<exists>self. w < length (windows p') \<and> windows p' ! w = MainWindow_init self"
proof (cases "new_widget rt")
  case (Inl e)
  with assms show ?thesis by (simp add: MainWindow_def)
next
  case (Inr self)
  with assms have "w = length (windows p)"
    and "windows p' = windows p @ [MainWindow_init self]"
    by (auto simp add: MainWindow_def emit_def)
  then have "w < length (windows p') \<and> windows p' ! w = MainWindow_init self" by simp
  then show ?thesis ..
qed

section \<open>Exit propagation\<close>

text \<open>
  C1, as amended. Whenever a run of \<^verbatim>\<open>main\<close> reaches the event loop and the loop
  returns \<open>N\<close>, the process ends by \<^verbatim>\<open>sys.exit(N)\<close> and its exit status is
  \<open>N mod 256\<close>: it is \<open>N\<close> itself exactly for the values a status can hold,
  \<open>0 \<le> N < 256\<close>, so 0 gives 0 and a nonzero \<open>N\<close> up to 255 gives \<open>N\<close>.
\<close>

theorem exit_propagation:
  assumes "Gui Exec \<in> set (trace (snd (main rt argv)))" and "event_loop rt = Some N"
  shows "fst (main rt argv) = Exited N
    \<and> SysExit N \<in> set (trace (snd (main rt argv)))
    \<and> exit_status (fst (main rt argv)) = Some (N mod 256)
    \<and> (0 \<le> N \<and> N < 256 \<longrightarrow> exit_status (fst (main rt argv)) = Some N)
    \<and> (exit_status (fst (main rt argv)) = Some N \<longrightarrow> 0 \<le> N \<and> N < 256)"
proof (cases rt argv rule: main_cases)
  case (unavailable e)
  with assms(1) show ?thesis by (simp add: main_unavailable)
next
  case (exhausted e)
  with assms(1) show ?thesis by (simp add: main_exhausted)
next
  case (blocked self)
  with assms(2) show ?thesis by simp
next
  case (exited self n)
  with assms(2) have n: "n = N" by simp
  have lo: "0 \<le> N mod 256" by simp
  have hi: "N mod 256 < 256" by simp
  have "N mod 256 = N \<Longrightarrow> 0 \<le> N \<and> N < 256" using lo hi by simp
  with exited n show ?thesis
    by (auto simp add: main_exited five_steps_def)
qed

theorem exit_propagation_witness:
  "Gui Exec \<in> set (trace (snd (main desktop [''main.py''])))
   \<and> event_loop desktop = Some 0
   \<and> exit_status (fst (main desktop [''main.py''])) = Some 0
   \<and> Gui Exec \<in> set (trace (snd (main crashing [''main.py''])))
   \<and> event_loop crashing = Some 3
   \<and> exit_status (fst (main crashing [''main.py''])) = Some 3"
proof -
  have d1: "Gui Exec \<in> set (trace (snd (main desktop [''main.py''])))"
    by (simp add: main_desktop five_steps_def)
  have d2: "event_loop desktop = Some 0" by (simp add: desktop_def)
  have c1: "Gui Exec \<in> set (trace (snd (main crashing [''main.py''])))"
    by (simp add: main_crashing five_steps_def)
  have c2: "event_loop crashing = Some 3" by (simp add: crashing_def)
  from exit_propagation [OF d1 d2] exit_propagation [OF c1 c2] d1 d2 c1 c2
  show ?thesis by simp
qed

text \<open>
  C1 as it was stated, "for every integer \<open>N\<close> the exit code equals \<open>N\<close>", fails:
  when the event loop returns 256, \<^verbatim>\<open>sys.exit(256)\<close> ends the process with status 0.
\<close>

theorem exit_propagation_counterexample:
  "Gui Exec \<in> set (trace (snd (main wrapping [''main.py''])))
   \<and> event_loop wrapping = Some 256
   \<and> fst (main wrapping [''main.py'']) = Exited 256
   \<and> exit_status (fst (main wrapping [''main.py''])) = Some 0
   \<and> exit_status (fst (main wrapping [''main.py''])) \<noteq> Some 256"
proof -
  have loop: "event_loop wrapping = Some 256" by (simp add: wrapping_def)
  have run: "Gui Exec \<in> set (trace (snd (main wrapping [''main.py''])))
    \<and> fst (main wrapping [''main.py'']) = Exited 256
    \<and> exit_status (fst (main wrapping [''main.py''])) = Some 0
    \<and> exit_status (fst (main wrapping [''main.py''])) \<noteq> Some 256"
    by (simp add: main_wrapping five_steps_def)
  from loop run show ?thesis by simp
qed

section \<open>The window\<close>

text \<open>
  C2. When the call \<^verbatim>\<open>MainWindow()\<close> returns a window, that window is in the store, its
  title is "OpenShot X - Screen Capture Tool", its position is (100, 100) and its size is
  (600, 400), whatever the widget was before the constructor's two calls.
\<close>

theorem window_after_construction:
  assumes "MainWindow rt p = (Inr w, p')"
  shows "w < length (windows p')
    \<and> windowTitle (windows p' ! w) = ''OpenShot X - Screen Capture Tool''
    \<and> window_pos (windows p' ! w) = (100, 100)
    \<and> window_size (windows p' ! w) = (600, 400)"
proof (cases "new_widget rt")
  case (Inl e)
  with assms show ?thesis by (simp add: MainWindow_def)
next
  case (Inr self)
  with assms have w: "w = length (windows p)"
    and p': "windows p' = windows p @ [MainWindow_init self]"
    by (auto simp add: MainWindow_def emit_def)
  from w p' have "windows p' ! w = MainWindow_init self" by simp
  with w p' show ?thesis
    by (simp add: MainWindow_init_title MainWindow_init_pos MainWindow_init_size)
qed

theorem window_after_construction_witness:
  "MainWindow desktop initial =
     (Inr 0, \<lparr>app = None, windows = [MainWindow_init fresh_widget],
               trace = [Gui MainWindow_new]\<rparr>)
   \<and> windowTitle (MainWindow_init fresh_widget) = ''OpenShot X - Screen Capture Tool''
   \<and> window_pos (MainWindow_init fresh_widget) = (100, 100)
   \<and> window_size (MainWindow_init fresh_widget) = (600, 400)"
proof -
  have h: "MainWindow desktop initial =
     (Inr 0, \<lparr>app = None, windows = [MainWindow_init fresh_widget],
               trace = [Gui MainWindow_new]\<rparr>)"
    by (simp add: MainWindow_def desktop_def initial_def emit_def)
  from window_after_construction [OF h] h show ?thesis by simp
qed

text \<open>
  C3. When startup (lines 11 to 13) completes, the store holds exactly one window, titled
  "OpenShot X - Screen Capture Tool", and it is still the only one when \<^verbatim>\<open>main\<close> is
  over; no run of \<^verbatim>\<open>main\<close> constructs a window twice or holds two windows.
\<close>

theorem single_window:
  "(fst (startup rt argv) = Inr w \<longrightarrow>
      (\<exists>win. windows (snd (startup rt argv)) = [win]
         \<and> windows (snd (main rt argv)) = [win]
         \<and> windowTitle win = ''OpenShot X - Screen Capture Tool''
         \<and> constructions (trace (snd (main rt argv))) = 1))
   \<and> length (windows (snd (main rt argv))) \<le> 1
   \<and> constructions (trace (snd (main rt argv))) \<le> 1"
proof (cases rt argv rule: main_cases)
  case (unavailable e)
  then show ?thesis by (simp add: main_unavailable startup_unavailable)
next
  case (exhausted e)
  then show ?thesis by (simp add: main_exhausted startup_exhausted)
next
  case (blocked self)
  then show ?thesis by (simp add: main_blocked startup_done shown_window_title)
next
  case (exited self n)
  then show ?thesis
    by (simp add: main_exited startup_done shown_window_title five_steps_def)
qed

theorem single_window_witness:
  "fst (startup desktop [''main.py'']) = Inr 0
   \<and> windows (snd (startup desktop [''main.py''])) = [shown_window fresh_widget]
   \<and> windows (snd (main desktop [''main.py''])) = [shown_window fresh_widget]
   \<and> windowTitle (shown_window fresh_widget) = ''OpenShot X - Screen Capture Tool''
   \<and> constructions (trace (snd (main desktop [''main.py'']))) = 1"
proof -
  have h: "fst (startup desktop [''main.py'']) = Inr 0" by (simp add: startup_desktop)
  from single_window [of desktop "[''main.py'']" 0] h
  show ?thesis by (simp add: startup_desktop main_desktop)
qed

section \<open>Failure at startup\<close>

text \<open>
  C4. If \<^verbatim>\<open>QApplication(sys.argv)\<close> fails, the failure leaves \<^verbatim>\<open>main\<close> at line 11: no
  window is constructed or stored, the event loop is not entered, \<^verbatim>\<open>sys.exit\<close> is not
  reached, and the process ends with a nonzero status.
\<close>

theorem fatal_startup:
  assumes "attach rt argv = Some e"
  shows "windows (snd (main rt argv)) = []
    \<and> constructions (trace (snd (main rt argv))) = 0
    \<and> Gui MainWindow_new \<notin> set (trace (snd (main rt argv)))
    \<and> Gui Exec \<notin> set (trace (snd (main rt argv)))
    \<and> fst (main rt argv) = Uncaught e
    \<and> (\<exists>n. exit_status (fst (main rt argv)) = Some n \<and> n \<noteq> 0)"
  by (cases e) (simp_all add: main_unavailable [OF assms])

theorem fatal_startup_witness:
  "attach headless [''main.py''] = Some RuntimeUnavailable
   \<and> windows (snd (main headless [''main.py''])) = []
   \<and> Gui Exec \<notin> set (trace (snd (main headless [''main.py''])))
   \<and> exit_status (fst (main headless [''main.py''])) = Some 134"
proof -
  have h: "attach headless [''main.py''] = Some RuntimeUnavailable"
    by (simp add: headless_def)
  from fatal_startup [OF h] h show ?thesis by simp
qed

section \<open>Order of the steps\<close>



section \<open>The argument vector\<close>

text \<open>
  C6. Every run of \<^verbatim>\<open>main\<close> calls the runtime initializer exactly once, with the
  argument vector as it is; when the initializer succeeds, the application object holds
  that vector. The program itself never looks at it: two runs on which the initializer
  answers alike have the same outcome, the same windows, and the same effects after the
  first.
\<close>

theorem argv_passed_through:
  "qapplication_args (trace (snd (main rt argv))) = [argv]
   \<and> hd (trace (snd (main rt argv))) = Gui (QApplication_new argv)
   \<and> (attach rt argv = None \<longrightarrow> app (snd (main rt argv)) = Some argv)
   \<and> (attach rt argv = attach rt argv' \<longrightarrow>
        fst (main rt argv) = fst (main rt argv')
        \<and> windows (snd (main rt argv)) = windows (snd (main rt argv'))
        \<and> tl (trace (snd (main rt argv))) = tl (trace (snd (main rt argv'))))"
proof (cases rt argv rule: main_cases)
  case (unavailable e)
  then show ?thesis
    by (auto simp add: main_unavailable [of rt argv e] main_unavailable [of rt argv' e])
next
  case (exhausted e)
  then show ?thesis
    by (auto simp add: main_exhausted [of rt argv e] main_exhausted [of rt argv' e])
next
  case (blocked self)
  then show ?thesis
    by (auto simp add: main_blocked [of rt argv self] main_blocked [of rt argv' self])
next
  case (exited self n)
  then show ?thesis
    by (auto simp add: main_exited [of rt argv self n] main_exited [of rt argv' self n]
        five_steps_def)
qed

theorem argv_passed_through_witness:
  "attach desktop [''main.py'', ''--help''] = None
   \<and> app (snd (main desktop [''main.py'', ''--help''])) = Some [''main.py'', ''--help'']
   \<and> attach desktop [''main.py'', ''--help''] = attach desktop []
   \<and> fst (main desktop [''main.py'', ''--help'']) = fst (main desktop [])
   \<and> windows (snd (main desktop [''main.py'', ''--help''])) = windows (snd (main desktop []))"
proof -
  have h1: "attach desktop [''main.py'', ''--help''] = None" by (simp add: desktop_def)
  have h2: "attach desktop [''main.py'', ''--help''] = attach desktop []"
    by (simp add: desktop_def)
  from argv_passed_through [of desktop "[''main.py'', ''--help'']" "[]"] h1 h2
  show ?thesis by simp
qed

section \<open>Showing a window twice\<close>

text \<open>
  C7. Showing a window a second time leaves the window store as the first call left it
  (the call has no error result), the window is visible after it, and when the window is
  the only one in the store, exactly one window is visible afterwards.
\<close>

theorem show_idempotent:
  "windows (QWidget_show w (QWidget_show w p)) = windows (QWidget_show w p)
   \<and> app (QWidget_show w (QWidget_show w p)) = app (QWidget_show w p)
   \<and> (w < length (windows p) \<longrightarrow>
        visible (windows (QWidget_show w (QWidget_show w p)) ! w))
   \<and> (windows p = [win] \<longrightarrow>
        filter visible (windows (QWidget_show 0 (QWidget_show 0 p)))
          = [win\<lparr>visible := True\<rparr>])"
  by (simp add: QWidget_show_def emit_def Let_def)

theorem show_idempotent_witness:
  "windows (snd (startup desktop [])) = [shown_window fresh_widget]
   \<and> filter visible (windows (QWidget_show 0 (QWidget_show 0 (snd (startup desktop [])))))
       = [shown_window fresh_widget]
   \<and> windows (QWidget_show 0 (snd (startup desktop []))) = windows (snd (startup desktop []))"
proof -
  have h: "windows (snd (startup desktop [])) = [shown_window fresh_widget]"
    by (simp add: startup_desktop)
  have v: "(shown_window fresh_widget)\<lparr>visible := True\<rparr> = shown_window fresh_widget"
    by (simp add: shown_window_def)
  have one: "windows (QWidget_show 0 (snd (startup desktop []))) = [shown_window fresh_widget]"
    by (simp add: startup_desktop QWidget_show_def emit_def Let_def v)
  have vis: "visible (shown_window fresh_widget)" by (simp add: shown_window_def)
  from show_idempotent [of 0 "snd (startup desktop [])" "shown_window fresh_widget"]
    h v one vis
  show ?thesis by simp
qed

section \<open>Effects\<close>

text \<open>
  C8. Every effect of every run of \<^verbatim>\<open>main\<close> is a call into the GUI runtime or the
  process exit: the program reads and writes no file, opens no port, and reads and
  writes no environment variable.
\<close>

theorem only_gui_effects:
  "(\<forall>e \<in> set (trace (snd (main rt argv))). gui_or_exit e)
   \<and> FileRead f \<notin> set (trace (snd (main rt argv)))
   \<and> FileWrite f \<notin> set (trace (snd (main rt argv)))
   \<and> PortOpen k \<notin> set (trace (snd (main rt argv)))
   \<and> EnvRead v \<notin> set (trace (snd (main rt argv)))
   \<and> EnvWrite v \<notin> set (trace (snd (main rt argv)))"
  by (cases rt argv rule: main_cases)
    (simp_all add: main_unavailable main_exhausted main_blocked main_exited five_steps_def)

theorem only_gui_effects_witness:
  "SysExit 3 \<in> set (trace (snd (main crashing [''main.py''])))
   \<and> gui_or_exit (SysExit 3)
   \<and> Gui Exec \<in> set (trace (snd (main crashing [''main.py''])))
   \<and> gui_or_exit (Gui Exec)"
proof -
  have h1: "SysExit 3 \<in> set (trace (snd (main crashing [''main.py''])))"
    by (simp add: main_crashing five_steps_def)
  have h2: "Gui Exec \<in> set (trace (snd (main crashing [''main.py''])))"
    by (simp add: main_crashing five_steps_def)
  from only_gui_effects [of crashing "[''main.py'']"]
  have all: "\<forall>e \<in> set (trace (snd (main crashing [''main.py'']))). gui_or_exit e"
    by (rule conjunct1)
  from all h1 have "gui_or_exit (SysExit 3)" by (rule bspec)
  moreover from all h2 have "gui_or_exit (Gui Exec)" by (rule bspec)
  ultimately show ?thesis using h1 h2 by simp
qed

section \<open>Import\<close>

text \<open>
  C9. Run under any name but \<^verbatim>\<open>'__main__'\<close>, the module binds its names and does nothing
  else: \<^verbatim>\<open>main\<close> does not run, the process is as it started (no application object, no
  window, no effect), and the definitions made are the class \<^verbatim>\<open>MainWindow\<close> and the
  function \<^verbatim>\<open>main\<close>. Run as \<^verbatim>\<open>'__main__'\<close>, it runs \<^verbatim>\<open>main\<close>.
\<close>

theorem import_is_inert:
  "(name \<noteq> ''__main__'' \<longrightarrow>
      fst (snd (run_module name rt argv)) = None
      \<and> app (snd (snd (run_module name rt argv))) = None
      \<and> windows (snd (snd (run_module name rt argv))) = []
      \<and> trace (snd (snd (run_module name rt argv))) = [])
   \<and> filter (\<lambda>b. \<not> is_import b) (fst (run_module name rt argv))
       = [Class ''MainWindow'', Def ''main'']
   \<and> snd (run_module ''__main__'' rt argv) = (Some (fst (main rt argv)), snd (main rt argv))"
  by (simp add: run_module_def module_bindings_def initial_def split: prod.split)

theorem import_is_inert_witness:
  "''main'' \<noteq> ''__main__''
   \<and> fst (snd (run_module ''main'' desktop [''pytest''])) = None
   \<and> trace (snd (snd (run_module ''main'' desktop [''pytest'']))) = []
   \<and> windows (snd (snd (run_module ''main'' desktop [''pytest'']))) = []
   \<and> fst (snd (run_module ''__main__'' desktop [''main.py''])) = Some (Exited 0)"
proof -
  have h: "''main'' \<noteq> ''__main__''" by simp
  from import_is_inert [of "''main''" desktop "[''pytest'']"] h
    import_is_inert [of "''__main__''" desktop "[''main.py'']"]
  show ?thesis by (simp add: main_desktop)
qed

section \<open>Independence of the input\<close>

text \<open>
  C10. Take two runs, on the argument vectors \<open>argv1\<close> and \<open>argv2\<close>, in each of which
  line 11 succeeds and the constructor call of line 12 returns a window. As constructed,
  the two windows have the same title "OpenShot X - Screen Capture Tool", the same
  position (100, 100) and the same size (600, 400), whatever the two argument vectors,
  whatever the runtime did in each run and whatever state the initializer left. The
  statement is about the window as the constructor returns it; what the runtime does to
  a window when it is shown is not part of it.
\<close>

theorem window_independent_of_argv:
  assumes "QApplication rt1 argv1 initial = (Inr u1, p1)"
    and "MainWindow rt1 p1 = (Inr w1, q1)"
    and "QApplication rt2 argv2 initial = (Inr u2, p2)"
    and "MainWindow rt2 p2 = (Inr w2, q2)"
  shows "windowTitle (windows q1 ! w1) = ''OpenShot X - Screen Capture Tool''
    \<and> window_pos (windows q1 ! w1) = (100, 100)
    \<and> window_size (windows q1 ! w1) = (600, 400)
    \<and> windowTitle (windows q2 ! w2) = windowTitle (windows q1 ! w1)
    \<and> window_pos (windows q2 ! w2) = window_pos (windows q1 ! w1)
    \<and> window_size (windows q2 ! w2) = window_size (windows q1 ! w1)"
proof -
  from MainWindow_returns [OF assms(2)]
  obtain s1 where "windows q1 ! w1 = MainWindow_init s1" by blast
  moreover
  from MainWindow_returns [OF assms(4)]
  obtain s2 where "windows q2 ! w2 = MainWindow_init s2" by blast
  ultimately show ?thesis
    by (simp add: MainWindow_init_title MainWindow_init_pos MainWindow_init_size)
qed

theorem window_independent_of_argv_witness:
  "QApplication desktop [''main.py''] initial =
     (Inr (), \<lparr>app = Some [''main.py''], windows = [],
               trace = [Gui (QApplication_new [''main.py''])]\<rparr>)
   \<and> QApplication crashing [''main.py'', ''-qwindowgeometry'', ''300x200+10+10''] initial =
     (Inr (), \<lparr>app = Some [''main.py'', ''-qwindowgeometry'', ''300x200+10+10''],
               windows = [],
               trace = [Gui (QApplication_new
                          [''main.py'', ''-qwindowgeometry'', ''300x200+10+10''])]\<rparr>)
   \<and> fst (MainWindow desktop
        \<lparr>app = Some [''main.py''], windows = [],
         trace = [Gui (QApplication_new [''main.py''])]\<rparr>) = Inr 0
   \<and> window_size (MainWindow_init fresh_widget) = (600, 400)
   \<and> window_pos (MainWindow_init fresh_widget) = (100, 100)
   \<and> windowTitle (MainWindow_init fresh_widget) = ''OpenShot X - Screen Capture Tool''"
proof -
  let ?a1 = "[''main.py'']"
  let ?a2 = "[''main.py'', ''-qwindowgeometry'', ''300x200+10+10'']"
  let ?p1 = "\<lparr>app = Some ?a1, windows = [], trace = [Gui (QApplication_new ?a1)]\<rparr>"
  let ?p2 = "\<lparr>app = Some ?a2, windows = [], trace = [Gui (QApplication_new ?a2)]\<rparr>"
  let ?q1 = "\<lparr>app = Some ?a1, windows = [MainWindow_init fresh_widget],
             trace = [Gui (QApplication_new ?a1), Gui MainWindow_new]\<rparr>"
  let ?q2 = "\<lparr>app = Some ?a2, windows = [MainWindow_init fresh_widget],
             trace = [Gui (QApplication_new ?a2), Gui MainWindow_new]\<rparr>"
  have a1: "QApplication desktop ?a1 initial = (Inr (), ?p1)"
    by (simp add: QApplication_def desktop_def initial_def emit_def)
  have m1: "MainWindow desktop ?p1 = (Inr 0, ?q1)"
    by (simp add: MainWindow_def desktop_def emit_def)
  have a2: "QApplication crashing ?a2 initial = (Inr (), ?p2)"
    by (simp add: QApplication_def crashing_def initial_def emit_def)
  have m2: "MainWindow crashing ?p2 = (Inr 0, ?q2)"
    by (simp add: MainWindow_def crashing_def emit_def)
  from window_independent_of_argv [OF a1 m1 a2 m2] a1 a2 m1
  show ?thesis by simp
qed

end
